theory Spec2Isabelle
  imports Main
begin

section \<open>Frames, reports and exceptions\<close>

text \<open>
  A pandas column is a list of cells; a cell is \<open>None\<close> where pandas holds NaN.
  The cell values themselves stay abstract (\<open>'v\<close>): no floating-point arithmetic
  is modelled.  A frame is the ordered list of its labelled columns.
\<close>

type_synonym 'v column = "'v option list"

type_synonym 'v frame = "(string \<times> 'v column) list"

text \<open>The messages \<open>app.py\<close> shows with \<open>st.error\<close>, named after the error taxonomy.\<close>

datatype 'e report =
    EmptyResult            \<comment> \<open>line 30: no data found\<close>
  | FetchError 'e          \<comment> \<open>line 45: error downloading data\<close>
  | ColumnNotFound string  \<comment> \<open>line 55: column not found in the frame\<close>
  | MissingField           \<comment> \<open>line 69: data does not contain Close\<close>
  | ComputationError 'e    \<comment> \<open>line 82: error calculating indicators\<close>
  | InsufficientData       \<comment> \<open>line 129: not enough data\<close>
  | ValidationError        \<comment> \<open>line 175: end date must be after start date\<close>

text \<open>Exceptions: those pandas raises in the modelled lines, and those of a library call.\<close>

datatype 'e exn = KeyError string | ValueError | External 'e

definition columns :: "'v frame \<Rightarrow> string list" where
  "columns df = map fst df"

definition nrows :: "'v frame \<Rightarrow> nat" where
  "nrows df = (case df of [] \<Rightarrow> 0 | (l, c) # rest \<Rightarrow> length c)"

text \<open>
  \<open>df[l]\<close> for reading: every column that carries the label, in order.  pandas gives
  a series when there is exactly one, a frame when there are several, and raises
  \<open>KeyError\<close> when there is none.
\<close>

definition get_columns :: "'v frame \<Rightarrow> string \<Rightarrow> 'v column list" where
  "get_columns df l = map snd (filter (\<lambda>(k, d). k = l) df)"

text \<open>
  \<open>df[l] = c\<close> for a series \<open>c\<close>: every column that carries the label is replaced
  where it stands (the value is tiled over them), and a new column goes last.
\<close>

definition set_column :: "'v frame \<Rightarrow> string \<Rightarrow> 'v column \<Rightarrow> 'v frame" where
  "set_column df l c =
     (if l \<in> set (columns df) then map (\<lambda>(k, d). if k = l then (k, c) else (k, d)) df
      else df @ [(l, c)])"

text \<open>
  Assigning a series to a column aligns it on the frame's row index: the column gets
  one cell per row of the frame, NaN where the series has none.
\<close>

definition reindex :: "nat \<Rightarrow> 'v column \<Rightarrow> 'v column" where
  "reindex n c = take n c @ replicate (n - length c) None"

section \<open>Data Loader (\<open>download_data\<close>, lines 24--46)\<close>

text \<open>Column labels are a flat index of strings or a \<open>pd.MultiIndex\<close> of tuples.\<close>

datatype labels = Index "string list" | MultiIndex "string list list"

text \<open>What \<open>yf.download\<close> returns: a frame indexed by date.\<close>

record 'v yf_frame =
  index_name :: "string option"
  index_values :: "'v column"
  column_labels :: labels
  column_data :: "'v column list"

definition n_columns :: "labels \<Rightarrow> nat" where
  "n_columns ls = (case ls of Index xs \<Rightarrow> length xs | MultiIndex ts \<Rightarrow> length ts)"

text \<open>\<open>df.empty\<close>: one of the two axes has length 0.\<close>

definition empty :: "'v yf_frame \<Rightarrow> bool" where
  "empty df \<longleftrightarrow> index_values df = [] \<or> n_columns (column_labels df) = 0"

text \<open>
  \<open>df.reset_index(inplace=True)\<close>: the index becomes the first column, labelled with
  the index name; an index without a name is labelled \<open>index\<close>, or \<open>level_0\<close>
  when the frame already has \<open>index\<close>.  Under a MultiIndex the label is padded with
  empty strings to the number of levels.  pandas raises \<open>ValueError\<close> when the label
  is already a column.
\<close>

definition top_level :: "labels \<Rightarrow> string list" where
  "top_level ls = (case ls of Index xs \<Rightarrow> xs | MultiIndex ts \<Rightarrow> map hd ts)"

definition index_label :: "'v yf_frame \<Rightarrow> string" where
  "index_label df =
     (case index_name df of
        Some n \<Rightarrow> n
      | None \<Rightarrow> if ''index'' \<in> set (top_level (column_labels df)) then ''level_0'' else ''index'')"

definition reset_index :: "'v yf_frame \<Rightarrow> 'e exn + (labels \<times> 'v column list)" where
  "reset_index df =
     (case column_labels df of
        Index ls \<Rightarrow>
          if index_label df \<in> set ls then Inl ValueError
          else Inr (Index (index_label df # ls), index_values df # column_data df)
      | MultiIndex ts \<Rightarrow>
          (let t = index_label df # replicate (length (hd ts) - 1) []
           in if t \<in> set ts then Inl ValueError
              else Inr (MultiIndex (t # ts), index_values df # column_data df)))"

text \<open>\<open>'_'.join(col)\<close>\<close>

fun join :: "string \<Rightarrow> string list \<Rightarrow> string" where
  "join sep [] = []"
| "join sep [s] = s"
| "join sep (s # t # ts) = s @ sep @ join sep (t # ts)"

text \<open>\<open>str.strip()\<close>: whitespace is removed at both ends (the ASCII whitespace characters).\<close>

definition isspace :: "char \<Rightarrow> bool" where
  "isspace c \<longleftrightarrow>
     (let n = (of_char c :: nat) in (9 \<le> n \<and> n \<le> 13) \<or> (28 \<le> n \<and> n \<le> 32))"

definition strip :: "string \<Rightarrow> string" where
  "strip s = rev (dropWhile isspace (rev (dropWhile isspace s)))"

text \<open>\<open>str.split(sep)\<close> for a one-character separator: never the empty list.\<close>

fun split :: "char \<Rightarrow> string \<Rightarrow> string list" where
  "split sep [] = [[]]"
| "split sep (c # cs) =
     (if c = sep then [] # split sep cs
      else (case split sep cs of [] \<Rightarrow> [[c]] | s # ss \<Rightarrow> (c # s) # ss))"

text \<open>Line 38: the flattening of one hierarchical label.\<close>

definition flatten :: "string list \<Rightarrow> string" where
  "flatten col = strip (join ''_'' col)"

text \<open>Line 41: \<open>col.split('_')[0] if '_' in col else col\<close>.\<close>

definition rename :: "string \<Rightarrow> string" where
  "rename col = (if CHR ''_'' \<in> set col then hd (split CHR ''_'' col) else col)"

text \<open>Lines 36--41 together: the labels of the frame that is returned.\<close>

definition normalize_labels :: "labels \<Rightarrow> string list" where
  "normalize_labels ls =
     map rename (case ls of Index xs \<Rightarrow> xs | MultiIndex ts \<Rightarrow> map flatten ts)"

type_synonym request_key = "string \<times> int \<times> int"

text \<open>
  The body of \<open>download_data\<close>.  The market data source \<open>yf.download\<close> is the
  parameter \<open>src\<close>; \<open>Inl\<close> is an exception it raises.  The result is \<open>Inl r\<close>
  when \<open>st.error\<close> shows \<open>r\<close> and \<open>None\<close> is returned, and \<open>Inr df\<close> when
  the frame \<open>df\<close> is returned.  Dates are day ordinals.
\<close>

definition download_data ::
  "(request_key \<Rightarrow> 'e exn + 'v yf_frame) \<Rightarrow> request_key \<Rightarrow> 'e exn report + 'v frame" where
  "download_data src key =
     (case src key of
        Inl e \<Rightarrow> Inl (FetchError e)
      | Inr df \<Rightarrow>
          if empty df then Inl EmptyResult
          else (case reset_index df of
                  Inl e \<Rightarrow> Inl (FetchError e)
                | Inr (ls, cols) \<Rightarrow> Inr (zip (normalize_labels ls) cols)))"

section \<open>The session: request cache and object store\<close>

text \<open>
  \<open>download_data\<close> is decorated with \<open>st.cache_data\<close> (line 24).  The decorator
  keeps, per argument tuple, what the function returned and the messages it showed, in
  serialised form; a call with a stored tuple does not run the body, it replays the
  messages and returns a fresh copy of the stored value.  So the cache holds values,
  never references into the store of live frames.  \<open>fetches\<close> logs the calls of the
  market data source, \<open>heap\<close> is the store of the frame objects of the running script.
\<close>

record ('v, 'e) session =
  cache :: "request_key \<rightharpoonup> ('e exn report + 'v frame)"
  fetches :: "request_key list"
  heap :: "'v frame list"

definition cached_download_data ::
  "(request_key \<Rightarrow> 'e exn + 'v yf_frame) \<Rightarrow> ('v, 'e) session \<Rightarrow> request_key
     \<Rightarrow> ('e exn report + 'v frame) \<times> ('v, 'e) session" where
  "cached_download_data src s key =
     (case cache s key of
        Some res \<Rightarrow> (res, s)
      | None \<Rightarrow>
          (let res = download_data src key
           in (res, s\<lparr>cache := (cache s)(key \<mapsto> res), fetches := fetches s @ [key]\<rparr>)))"

text \<open>A new object in the store; its reference is its position.\<close>

definition alloc :: "'v frame list \<Rightarrow> 'v frame \<Rightarrow> nat \<times> 'v frame list" where
  "alloc h df = (length h, h @ [df])"

section \<open>What is shown to the user\<close>

text \<open>
  The elements a run puts on the page, in order.  Headers and other fixed text are left
  out.  An exception no handler catches ends the run and is shown by the host
  (\<open>Uncaught\<close>, always the last element).
\<close>

datatype ('v, 'e) ui =
    Error "'e exn report"
  | LineChart string string "'v column" "'v column"
      \<comment> \<open>title, colour, x values (Date), y values\<close>
  | Figure "(string \<times> 'v column list \<times> bool) list"
      \<comment> \<open>traces: name, y data (what \<open>df[l]\<close> holds), dotted\<close>
  | DataTable "'v frame"
  | R2Score 'v
  | MeanAbsoluteError 'v
  | Forecast "(nat \<times> 'v option) list"
      \<comment> \<open>rows of \<open>forecast_df\<close>: Day, Predicted Price\<close>
  | Uncaught "'e exn"

section \<open>Charts (\<open>plot_chart\<close>, lines 48--60)\<close>

text \<open>
  \<open>plot_chart\<close> works on its own copy (line 50).  \<open>reset_index\<close> (line 51) puts
  the row numbers into a new first column labelled \<open>index\<close>, or \<open>level_0\<close> when
  the frame has \<open>index\<close>, and raises \<open>ValueError\<close> when it has both.  That
  column is not kept here: no call of \<open>plot_chart\<close> names it as x or y column.
  \<open>px.line\<close> raises \<open>ValueError\<close> when the x column \<open>Date\<close> is missing, and
  when \<open>Date\<close> or the y label names more than one column.
\<close>

definition plot_chart ::
  "'v frame list \<Rightarrow> nat \<Rightarrow> string \<Rightarrow> string \<Rightarrow> string \<Rightarrow> 'v frame list \<times> ('v, 'e) ui list" where
  "plot_chart h r title y_column color =
     (let (df, h1) = alloc h (h ! r)
      in if ''index'' \<in> set (columns (h1 ! df)) \<and> ''level_0'' \<in> set (columns (h1 ! df))
         then (h1, [Uncaught ValueError])
         else if y_column \<notin> set (columns (h1 ! df)) then (h1, [Error (ColumnNotFound y_column)])
         else (case (get_columns (h1 ! df) ''Date'', get_columns (h1 ! df) y_column) of
                 ([x], [y]) \<Rightarrow> (h1, [LineChart title color x y])
               | _ \<Rightarrow> (h1, [Uncaught ValueError])))"

section \<open>Indicator Renderer (\<open>tech_indicators\<close>, lines 63--100)\<close>

datatype indicator_option =
  Opt_Close | Opt_Bollinger_Bands | Opt_MACD | Opt_RSI | Opt_SMA | Opt_EMA

text \<open>
  \<open>df['Close'].squeeze()\<close> (line 73).  With one \<open>Close\<close> column \<open>df['Close']\<close>
  is a series, and a series of exactly one element becomes that scalar.  With several
  \<open>Close\<close> columns it is a frame, which stays a frame unless it has exactly one row:
  then it becomes the series of that row, indexed by the column labels.
\<close>

datatype 'v squeezed =
    Scalar "'v option"
  | Series "'v column"
  | Row "'v option list"
  | Frame "'v column list"

definition squeeze :: "'v column list \<Rightarrow> 'v squeezed" where
  "squeeze cs =
     (case cs of
        [c] \<Rightarrow> (case c of [x] \<Rightarrow> Scalar x | _ \<Rightarrow> Series c)
      | _ \<Rightarrow> if cs \<noteq> [] \<and> list_all (\<lambda>c. length c = 1) cs then Row (map hd cs) else Frame cs)"

text \<open>
  The technical-indicator library \<open>ta\<close> is a parameter: each entry stands for building
  the indicator object from \<open>close_prices\<close> and calling its method, and returns the
  series or (\<open>Inl\<close>) the exception raised.
\<close>

record ('v, 'e) ta =
  bollinger_hband :: "'v squeezed \<Rightarrow> 'e + 'v column"
  bollinger_lband :: "'v squeezed \<Rightarrow> 'e + 'v column"
  macd :: "'v squeezed \<Rightarrow> 'e + 'v column"
  rsi :: "'v squeezed \<Rightarrow> 'e + 'v column"
  sma_indicator :: "nat \<Rightarrow> 'v squeezed \<Rightarrow> 'e + 'v column"
  ema_indicator :: "'v squeezed \<Rightarrow> 'e + 'v column"

text \<open>Lines 75--80, in order: the column written and the computation that fills it.\<close>

definition indicator_columns ::
  "('v, 'e) ta \<Rightarrow> (string \<times> ('v squeezed \<Rightarrow> 'e + 'v column)) list" where
  "indicator_columns lib =
     [(''bb_high'', bollinger_hband lib),
      (''bb_low'', bollinger_lband lib),
      (''macd'', macd lib),
      (''rsi'', rsi lib),
      (''sma'', sma_indicator lib 14),
      (''ema'', ema_indicator lib)]"

text \<open>
  The assignments of the \<open>try\<close> block, one after the other, each written into the
  object \<open>r\<close> itself.  The first exception stops the block; what was written before it
  stays written.  An indicator series has the index of \<open>close_prices\<close>; the series of
  a \<open>Row\<close> is indexed by equal column labels, and assigning it raises \<open>ValueError\<close>
  (it cannot be aligned on the rows of the frame).
\<close>

fun assign_all ::
  "(string \<times> ('v squeezed \<Rightarrow> 'e + 'v column)) list \<Rightarrow> 'v squeezed \<Rightarrow> 'v frame list \<Rightarrow> nat
     \<Rightarrow> 'v frame list \<times> 'e exn option" where
  "assign_all [] cp h r = (h, None)"
| "assign_all ((l, f) # cs) cp h r =
     (case f cp of
        Inl e \<Rightarrow> (h, Some (External e))
      | Inr s \<Rightarrow>
          (case cp of
             Row xs \<Rightarrow> (h, Some ValueError)
           | _ \<Rightarrow> assign_all cs cp (h[r := set_column (h ! r) l (reindex (nrows (h ! r)) s)]) r))"

definition tech_indicators ::
  "('v, 'e) ta \<Rightarrow> indicator_option \<Rightarrow> 'v frame list \<Rightarrow> nat \<Rightarrow> 'v frame list \<times> ('v, 'e) ui list" where
  "tech_indicators lib option h r =
     (if ''Close'' \<notin> set (columns (h ! r)) then (h, [Error MissingField])
      else
        (let close_prices = squeeze (get_columns (h ! r) ''Close'')
         in case assign_all (indicator_columns lib) close_prices h r of
              (h1, Some e) \<Rightarrow> (h1, [Error (ComputationError e)])
            | (h1, None) \<Rightarrow>
                (case option of
                   Opt_Close \<Rightarrow> plot_chart h1 r ''Close Price'' ''Close'' ''blue''
                 | Opt_Bollinger_Bands \<Rightarrow>
                     (h1, [Figure [(''Close Price'', get_columns (h1 ! r) ''Close'', False),
                                   (''Upper Band'', get_columns (h1 ! r) ''bb_high'', True),
                                   (''Lower Band'', get_columns (h1 ! r) ''bb_low'', True)]])
                 | Opt_MACD \<Rightarrow> plot_chart h1 r ''MACD'' ''macd'' ''red''
                 | Opt_RSI \<Rightarrow>
                     plot_chart h1 r ''RSI (Relative Strength Index)'' ''rsi'' ''purple''
                 | Opt_SMA \<Rightarrow> plot_chart h1 r ''Simple Moving Average'' ''sma'' ''orange''
                 | Opt_EMA \<Rightarrow>
                     plot_chart h1 r ''Exponential Moving Average'' ''ema'' ''green'')))"

section \<open>Recent Data Renderer (\<open>dataframe\<close>, lines 102--105)\<close>

text \<open>\<open>df.tail(n)\<close>: the last \<open>n\<close> rows, as a new frame.\<close>

definition tail :: "nat \<Rightarrow> 'v frame \<Rightarrow> 'v frame" where
  "tail n df = map (\<lambda>(l, c). (l, drop (length c - n) c)) df"

definition dataframe :: "'v frame list \<Rightarrow> nat \<Rightarrow> 'v frame list \<times> ('v, 'e) ui list" where
  "dataframe h r = (h, [DataTable (tail 10 (h ! r))])"

section \<open>Prediction Renderer (\<open>predict\<close>, \<open>train_and_predict\<close>, lines 107--150)\<close>

text \<open>A two-dimensional array (\<open>.values\<close> of a frame): the list of its rows.\<close>

type_synonym 'v matrix = "'v option list list"

definition values_of :: "'v frame \<Rightarrow> 'v matrix" where
  "values_of df = map (\<lambda>i. map (\<lambda>(l, c). c ! i) df) [0..<nrows df]"

text \<open>
  \<open>df[[l1, ...]]\<close>: for each label every column that carries it, or \<open>KeyError\<close>
  for a label the frame has not.
\<close>

fun select_columns :: "string list \<Rightarrow> 'v frame \<Rightarrow> string + 'v frame" where
  "select_columns [] df = Inr []"
| "select_columns (l # ls) df =
     (if l \<notin> set (columns df) then Inl l
      else (case select_columns ls df of
              Inl m \<Rightarrow> Inl m
            | Inr rest \<Rightarrow> Inr (map (Pair l) (get_columns df l) @ rest)))"

text \<open>\<open>df.drop(columns=ls)\<close> for labels the frame has.\<close>

definition drop_columns :: "string list \<Rightarrow> 'v frame \<Rightarrow> 'v frame" where
  "drop_columns ls df = filter (\<lambda>(l, c). l \<notin> set ls) df"

text \<open>
  \<open>Series.shift(periods)\<close>: the values move by \<open>periods\<close> rows, towards the start
  when it is negative; the rows left without a value hold NaN.
\<close>

definition shift :: "'v column \<Rightarrow> int \<Rightarrow> 'v column" where
  "shift c periods =
     (if periods < 0
      then drop (nat (- periods)) c @ replicate (min (nat (- periods)) (length c)) None
      else replicate (min (nat periods) (length c)) None @ take (length c - nat periods) c)"

text \<open>\<open>df.dropna()\<close>: the rows that hold a value in every column.\<close>

definition dropna :: "'v frame \<Rightarrow> 'v frame" where
  "dropna df =
     (let keep = filter (\<lambda>i. list_all (\<lambda>(l, c). c ! i \<noteq> None) df) [0..<nrows df]
      in map (\<lambda>(l, c). (l, map (\<lambda>i. c ! i) keep)) df)"

text \<open>\<open>Series.isnull().all()\<close>\<close>

definition all_null :: "'v column \<Rightarrow> bool" where
  "all_null c = list_all (\<lambda>x. x = None) c"

text \<open>The array slice \<open>a[-d:]\<close>: the last \<open>d\<close> rows, and the whole array for \<open>d = 0\<close>.\<close>

definition last_rows :: "nat \<Rightarrow> 'a list \<Rightarrow> 'a list" where
  "last_rows d xs = (if d = 0 then xs else drop (length xs - d) xs)"

text \<open>
  The estimators, each with the \<open>random_state\<close> it is constructed with, where its
  constructor has one; lines 115--119 give none.
\<close>

datatype estimator =
    LinearRegression
  | RandomForestRegressor "nat option"
  | ExtraTreesRegressor "nat option"
  | KNeighborsRegressor
  | XGBRegressor "nat option"

datatype model_choice = Linear_Regression | Random_Forest | Extra_Trees | KNN | XGBoost

fun model_dict :: "model_choice \<Rightarrow> estimator" where
  "model_dict Linear_Regression = LinearRegression"
| "model_dict Random_Forest = RandomForestRegressor None"
| "model_dict Extra_Trees = ExtraTreesRegressor None"
| "model_dict KNN = KNeighborsRegressor"
| "model_dict XGBoost = XGBRegressor None"

text \<open>
  The modelling library is a parameter; \<open>Inl\<close> is an exception raised by the call.
  \<open>train_test_split\<close> and \<open>fit\<close> may draw random numbers: they are given the state
  \<open>'g\<close> of the process-wide generator at the start of the run, which they read when
  they have no seed of their own.  \<open>train_test_split\<close> takes the test size in percent
  and its \<open>random_state\<close>.
\<close>

record ('v, 'e, 's, 'm, 'g) sklearn =
  scaler_fit :: "'v matrix \<Rightarrow> 'e + 's"
  scaler_transform :: "'s \<Rightarrow> 'v matrix \<Rightarrow> 'e + 'v matrix"
  train_test_split ::
    "'g \<Rightarrow> 'v matrix \<Rightarrow> 'v column \<Rightarrow> nat \<Rightarrow> nat option
       \<Rightarrow> 'e + ('v matrix \<times> 'v matrix \<times> 'v column \<times> 'v column)"
  fit :: "'g \<Rightarrow> estimator \<Rightarrow> 'v matrix \<Rightarrow> 'v column \<Rightarrow> 'e + 'm"
  predict :: "'m \<Rightarrow> 'v matrix \<Rightarrow> 'e + 'v column"
  r2_score :: "'v column \<Rightarrow> 'v column \<Rightarrow> 'e + 'v"
  mean_absolute_error :: "'v column \<Rightarrow> 'v column \<Rightarrow> 'e + 'v"

text \<open>Lines 132--133: the feature matrix \<open>X\<close> and the target vector \<open>y\<close>.\<close>

definition features :: "'v frame \<Rightarrow> 'v matrix" where
  "features df = values_of (drop_columns [''Target''] (dropna df))"

text \<open>
  \<open>df.dropna()['Target'].values\<close>.  The frame is the local one of
  \<open>train_and_predict\<close>, which has exactly one column \<open>Target\<close>, written on line 126.
\<close>

definition targets :: "'v frame \<Rightarrow> 'v column" where
  "targets df = concat (get_columns (dropna df) ''Target'')"

text \<open>
  The fit-eligible rows in the words of the specification: the rows whose \<open>Close\<close> and
  whose target, the \<open>Close\<close> of the row \<open>H\<close> days later, are both defined.
\<close>

definition eligible_rows :: "'v column \<Rightarrow> nat \<Rightarrow> nat list" where
  "eligible_rows close H =
     filter (\<lambda>i. close ! i \<noteq> None \<and> close ! (i + H) \<noteq> None) [0..<length close - H]"

text \<open>Lines 135--136: the scaler is fitted on \<open>X\<close> and \<open>X\<close> is transformed with it.\<close>

definition standardize ::
  "('v, 'e, 's, 'm, 'g) sklearn \<Rightarrow> 'v frame \<Rightarrow> 'e + ('s \<times> 'v matrix)" where
  "standardize lib df =
     (case scaler_fit lib (features df) of
        Inl e \<Rightarrow> Inl e
      | Inr scaler \<Rightarrow>
          (case scaler_transform lib scaler (features df) of
             Inl e \<Rightarrow> Inl e
           | Inr X \<Rightarrow> Inr (scaler, X)))"

text \<open>Line 138: the split, 20 percent for testing, \<open>random_state=42\<close>.\<close>

definition split_rows ::
  "('v, 'e, 's, 'm, 'g) sklearn \<Rightarrow> 'g \<Rightarrow> 'v frame
     \<Rightarrow> 'e + ('s \<times> 'v matrix \<times> 'v matrix \<times> 'v column \<times> 'v column)" where
  "split_rows lib g df =
     (case standardize lib df of
        Inl e \<Rightarrow> Inl e
      | Inr (scaler, X) \<Rightarrow>
          (case train_test_split lib g X (targets df) 20 (Some 42) of
             Inl e \<Rightarrow> Inl e
           | Inr sp \<Rightarrow> Inr (scaler, sp)))"

text \<open>Lines 147--150: the forward forecast and its table.\<close>

definition forecast ::
  "('v, 'e, 's, 'm, 'g) sklearn \<Rightarrow> 's \<Rightarrow> 'm \<Rightarrow> 'v frame \<Rightarrow> nat \<Rightarrow> ('v, 'e) ui list" where
  "forecast lib scaler model df days =
     (case select_columns [''Close''] df of
        Inl l \<Rightarrow> [Uncaught (KeyError l)]
      | Inr sel \<Rightarrow>
          (case scaler_transform lib scaler (last_rows days (values_of sel)) of
             Inl e \<Rightarrow> [Uncaught (External e)]
           | Inr F \<Rightarrow>
               (case predict lib model F of
                  Inl e \<Rightarrow> [Uncaught (External e)]
                | Inr future_preds \<Rightarrow>
                    if length future_preds \<noteq> length [1..<days + 1] then [Uncaught ValueError]
                    else [Forecast (zip [1..<days + 1] future_preds)])))"

text \<open>
  Lines 132--150, on the local frame \<open>df\<close> with its columns \<open>Close\<close> and
  \<open>Target\<close>, which nothing writes to any more.
\<close>

definition fit_predict ::
  "('v, 'e, 's, 'm, 'g) sklearn \<Rightarrow> 'g \<Rightarrow> estimator \<Rightarrow> 'v frame \<Rightarrow> nat \<Rightarrow> ('v, 'e) ui list" where
  "fit_predict lib g model df days =
     (case split_rows lib g df of
        Inl e \<Rightarrow> [Uncaught (External e)]
      | Inr (scaler, X_train, X_test, y_train, y_test) \<Rightarrow>
          (case fit lib g model X_train y_train of
             Inl e \<Rightarrow> [Uncaught (External e)]
           | Inr m \<Rightarrow>
               (case predict lib m X_test of
                  Inl e \<Rightarrow> [Uncaught (External e)]
                | Inr preds \<Rightarrow>
                    (case r2_score lib y_test preds of
                       Inl e \<Rightarrow> [Uncaught (External e)]
                     | Inr r2 \<Rightarrow>
                         (case mean_absolute_error lib y_test preds of
                            Inl e \<Rightarrow> [R2Score r2, Uncaught (External e)]
                          | Inr mae \<Rightarrow>
                              [R2Score r2, MeanAbsoluteError mae]
                              @ forecast lib scaler m df days)))))"

text \<open>
  \<open>train_and_predict\<close>.  Line 125 makes a new frame object of the columns labelled
  \<open>Close\<close> (\<open>KeyError\<close> when there is none) and rebinds \<open>df\<close> to it.  Line 126
  writes \<open>Target\<close> into that object: \<open>df['Close']\<close> is a series when the frame has
  one \<open>Close\<close> column, and a frame when it has several, which cannot be assigned to
  the single column (\<open>ValueError\<close>).  Line 128 is the guard.
\<close>

definition train_and_predict ::
  "('v, 'e, 's, 'm, 'g) sklearn \<Rightarrow> 'g \<Rightarrow> estimator \<Rightarrow> 'v frame list \<Rightarrow> nat \<Rightarrow> nat
     \<Rightarrow> 'v frame list \<times> ('v, 'e) ui list" where
  "train_and_predict lib g model h r days =
     (case select_columns [''Close''] (h ! r) of
        Inl l \<Rightarrow> (h, [Uncaught (KeyError l)])
      | Inr sel \<Rightarrow>
          (let (df, h1) = alloc h sel
           in case get_columns (h1 ! df) ''Close'' of
                [close] \<Rightarrow>
                  (let h2 = h1[df := set_column (h1 ! df) ''Target''
                                      (reindex (nrows (h1 ! df)) (shift close (- int days)))]
                   in if all_null (concat (get_columns (h2 ! df) ''Target''))
                      then (h2, [Error InsufficientData])
                      else (h2, fit_predict lib g model (h2 ! df) days))
              | _ \<Rightarrow> (h1, [Uncaught ValueError])))"

text \<open>The widgets of the page, as the values the script reads from them in one run.\<close>

datatype view = Visualize | Recent_Data | Predict

record inputs =
  view_option :: view
  stock_symbol :: string
  start_date :: int
  end_date :: int
  load_data :: bool
  indicator :: indicator_option
  chosen_model :: model_choice
  days_forecast :: nat
  predict_button :: bool

definition predict_view ::
  "('v, 'e, 's, 'm, 'g) sklearn \<Rightarrow> 'g \<Rightarrow> inputs \<Rightarrow> 'v frame list \<Rightarrow> nat
     \<Rightarrow> 'v frame list \<times> ('v, 'e) ui list" where
  "predict_view lib g inp h r =
     (if predict_button inp
      then train_and_predict lib g (model_dict (chosen_model inp)) h r (days_forecast inp)
      else (h, []))"

section \<open>Dispatch (\<open>main\<close>, lines 152--175)\<close>

text \<open>
  One run of the script.  The frame the Data Loader returns is a new object of the
  store, on a cache hit as on a miss.
\<close>

definition main ::
  "(request_key \<Rightarrow> 'e exn + 'v yf_frame) \<Rightarrow> ('v, 'e) ta \<Rightarrow> ('v, 'e, 's, 'm, 'g) sklearn \<Rightarrow> 'g
     \<Rightarrow> inputs \<Rightarrow> ('v, 'e) session \<Rightarrow> ('v, 'e) session \<times> ('v, 'e) ui list" where
  "main src talib sk g inp s =
     (if load_data inp then
        if start_date inp < end_date inp then
          (case cached_download_data src s (stock_symbol inp, start_date inp, end_date inp) of
             (Inl rep, s1) \<Rightarrow> (s1, [Error rep])
           | (Inr loaded, s1) \<Rightarrow>
               (let (df, h) = alloc (heap s1) loaded;
                    (h1, shown) =
                      (case view_option inp of
                         Visualize \<Rightarrow> tech_indicators talib (indicator inp) h df
                       | Recent_Data \<Rightarrow> dataframe h df
                       | Predict \<Rightarrow> predict_view sk g inp h df)
                in (s1\<lparr>heap := h1\<rparr>, shown)))
        else (s, [Error ValidationError])
      else (s, []))"

section \<open>Concrete instances of the external collaborators\<close>

text \<open>
  Small instances of the library interfaces, on integer values, on which the model can be
  evaluated.  The sample modelling library keeps the shape of the real one where the
  program depends on it: the scaler refuses an empty sample, the split refuses to leave
  the training set empty and reads the process-wide generator only when it has no seed,
  a prediction has one value per row, and the two forests read the process-wide generator
  when they are built without a seed.
\<close>

definition sample_sklearn :: "(int, unit, int matrix, nat, nat) sklearn" where
  "sample_sklearn =
     \<lparr>scaler_fit = (\<lambda>X. if X = [] then Inl () else Inr X),
      scaler_transform = (\<lambda>s X. Inr (map (map (map_option (\<lambda>x. x - int (length s)))) X)),
      train_test_split =
        (\<lambda>g X y percent random_state.
           if length X < 2 then Inl ()
           else (case random_state of
                   Some seed \<Rightarrow> Inr (butlast X, [last X], butlast y, [last y])
                 | None \<Rightarrow>
                     if even g then Inr (butlast X, [last X], butlast y, [last y])
                     else Inr (tl X, [hd X], tl y, [hd y]))),
      fit =
        (\<lambda>g model X y.
           Inr (case model of
                  RandomForestRegressor None \<Rightarrow> g
                | RandomForestRegressor (Some seed) \<Rightarrow> seed
                | ExtraTreesRegressor None \<Rightarrow> g
                | ExtraTreesRegressor (Some seed) \<Rightarrow> seed
                | _ \<Rightarrow> 0)),
      predict =
        (\<lambda>m X. Inr (map (\<lambda>row. case row of [Some x] \<Rightarrow> Some (x + int m) | _ \<Rightarrow> None) X)),
      r2_score = (\<lambda>y preds. Inr 1),
      mean_absolute_error = (\<lambda>y preds. Inr 0)\<rparr>"

text \<open>
  The sample indicator library: a computation fails on anything but a series, and on a
  series it leaves the rows before its window is full undefined, without failing.
\<close>

definition rolling :: "nat \<Rightarrow> int squeezed \<Rightarrow> unit + int column" where
  "rolling w cp =
     (case cp of
        Series xs \<Rightarrow> Inr (replicate (min (w - 1) (length xs)) None @ drop (w - 1) xs)
      | _ \<Rightarrow> Inl ())"

definition sample_ta :: "(int, unit) ta" where
  "sample_ta =
     \<lparr>bollinger_hband = rolling 20,
      bollinger_lband = rolling 20,
      macd = rolling 26,
      rsi = rolling 14,
      sma_indicator = rolling,
      ema_indicator = rolling 14\<rparr>"


text \<open>A market data source with no rows for any request, and one with two trading days.\<close>

definition no_data :: "request_key \<Rightarrow> unit exn + int yf_frame" where
  "no_data key =
     Inr \<lparr>index_name = Some ''Date'', index_values = [],
          column_labels = MultiIndex [], column_data = []\<rparr>"

definition two_days :: "request_key \<Rightarrow> unit exn + int yf_frame" where
  "two_days key =
     Inr \<lparr>index_name = Some ''Date'', index_values = [Some 1, Some 2],
          column_labels = MultiIndex [[''Close'', ''AAPL'']],
          column_data = [[Some 10, Some 11]]\<rparr>"

definition new_session :: "(int, unit) session" where
  "new_session = \<lparr>cache = Map.empty, fetches = [], heap = []\<rparr>"

section \<open>Auxiliary facts\<close>




lemma shift_neg: "shift c (- int d) = drop d c @ replicate (min d (length c)) None"
  by (auto simp: shift_def)

lemma length_shift: "length (shift c p) = length c"
  by (auto simp: shift_def)

lemma reindex_same: "length c = n \<Longrightarrow> reindex n c = c"
  by (simp add: reindex_def)


lemma filter_upt_less: "filter (\<lambda>i. i < k) [0..<n] = [0..<min k n]"
  by (induction n) auto

lemma nth_shift_neg:
  assumes "i < length c"
  shows "shift c (- int d) ! i = (if i + d < length c then c ! (i + d) else None)"
proof (cases "i + d < length c")
  case True
  then have "i < length (drop d c)" by simp
  then have "shift c (- int d) ! i = drop d c ! i" by (simp add: shift_neg nth_append)
  also have "\<dots> = c ! (d + i)" using True by simp
  finally show ?thesis using True by (simp add: add.commute)
next
  case False
  then have a: "\<not> i < length (drop d c)" by simp
  from False assms have b: "i - length (drop d c) < min d (length c)" by simp arith
  have "shift c (- int d) ! i = replicate (min d (length c)) None ! (i - length (drop d c))"
    using a by (simp only: shift_neg nth_append if_False)
  also have "\<dots> = None" using b by (rule nth_replicate)
  finally show ?thesis using False by simp
qed

lemma map_nth_upt: "n \<le> length xs \<Longrightarrow> map (\<lambda>i. xs ! i) [0..<n] = take n xs"
  by (rule nth_equalityI) simp_all

lemma values_of_single: "values_of [(a, xs)] = map (\<lambda>x. [x]) xs"
  by (rule nth_equalityI) (simp_all add: values_of_def nrows_def)

lemma get_columns_nonempty: "get_columns df l \<noteq> [] \<longleftrightarrow> l \<in> set (columns df)"
  by (induction df) (auto simp: get_columns_def columns_def)

lemma local_frame:
  assumes "get_columns (h ! r) ''Close'' = [close]"
  shows "train_and_predict lib g model h r days =
     (let df = [(''Close'', close), (''Target'', shift close (- int days))]
      in (h @ [df],
          if all_null (shift close (- int days)) then [Error InsufficientData]
          else fit_predict lib g model df days))"
proof -
  from assms have "get_columns (h ! r) ''Close'' \<noteq> []" by simp
  then have c: "''Close'' \<in> set (columns (h ! r))" by (simp only: get_columns_nonempty)
  have sel: "select_columns [''Close''] (h ! r) = Inr [(''Close'', close)]"
    using c assms by simp
  have g1: "get_columns [(''Close'', close)] ''Close'' = [close]"
    by (simp add: get_columns_def)
  have st: "set_column [(''Close'', close)] ''Target'' (shift close (- int days))
      = [(''Close'', close), (''Target'', shift close (- int days))]"
    by (simp add: set_column_def columns_def)
  have g2: "get_columns [(''Close'', close), (''Target'', shift close (- int days))] ''Target''
      = [shift close (- int days)]"
    by (simp add: get_columns_def)
  show ?thesis
    unfolding train_and_predict_def sel
    by (simp add: alloc_def Let_def g1 nrows_def reindex_same length_shift st g2)
qed

lemma all_null_nth: "all_null c \<longleftrightarrow> (\<forall>i<length c. c ! i = None)"
  by (simp add: all_null_def list_all_length)

lemma all_null_shift_iff:
  "all_null (shift c (- int d)) \<longleftrightarrow> (\<forall>i. i + d < length c \<longrightarrow> c ! (i + d) = None)"
proof -
  have "all_null (shift c (- int d))
      \<longleftrightarrow> (\<forall>i<length c. (if i + d < length c then c ! (i + d) else None) = None)"
    by (simp add: all_null_nth length_shift nth_shift_neg del: not_None_eq)
  also have "\<dots> \<longleftrightarrow> (\<forall>i. i + d < length c \<longrightarrow> c ! (i + d) = None)"
    by auto
  finally show ?thesis .
qed

lemma dropna2:
  "dropna [(a, c), (b, t)] =
     [(a, map (\<lambda>i. c ! i) (filter (\<lambda>i. c ! i \<noteq> None \<and> t ! i \<noteq> None) [0..<length c])),
      (b, map (\<lambda>i. t ! i) (filter (\<lambda>i. c ! i \<noteq> None \<and> t ! i \<noteq> None) [0..<length c]))]"
  by (simp add: dropna_def nrows_def Let_def del: not_None_eq)

lemma filter_upt_bound:
  "filter (\<lambda>i. i + d < n \<and> Q i) [0..<n] = filter Q [0..<n - d]"
proof -
  have "[0..<n] = [0..<n - d] @ [n - d..<n]"
    by (metis le_add_diff_inverse2 diff_le_self upt_add_eq_append zero_le add.commute)
  then have "filter (\<lambda>i. i + d < n \<and> Q i) [0..<n]
      = filter (\<lambda>i. i + d < n \<and> Q i) [0..<n - d] @ filter (\<lambda>i. i + d < n \<and> Q i) [n - d..<n]"
    by (metis filter_append)
  also have "filter (\<lambda>i. i + d < n \<and> Q i) [n - d..<n] = []"
    by (auto simp: filter_empty_conv)
  also have "filter (\<lambda>i. i + d < n \<and> Q i) [0..<n - d] = filter Q [0..<n - d]"
    by (rule filter_cong) auto
  finally show ?thesis by simp
qed

lemma keep_eligible:
  "filter (\<lambda>i. c ! i \<noteq> None \<and> shift c (- int d) ! i \<noteq> None) [0..<length c]
     = eligible_rows c d"
proof -
  have "filter (\<lambda>i. c ! i \<noteq> None \<and> shift c (- int d) ! i \<noteq> None) [0..<length c]
      = filter (\<lambda>i. i + d < length c \<and> (c ! i \<noteq> None \<and> c ! (i + d) \<noteq> None)) [0..<length c]"
    by (rule filter_cong) (auto simp: nth_shift_neg simp del: not_None_eq)
  then show ?thesis
    by (simp only: filter_upt_bound eligible_rows_def)
qed

lemma eligible_rows_bound: "i \<in> set (eligible_rows c d) \<Longrightarrow> i + d < length c"
  by (auto simp: eligible_rows_def)

lemma features_local:
  "features [(''Close'', c), (''Target'', shift c (- int d))]
     = map (\<lambda>i. [c ! i]) (eligible_rows c d)"
  unfolding features_def dropna2 keep_eligible
  by (simp add: drop_columns_def values_of_single del: not_None_eq)

lemma targets_local:
  "targets [(''Close'', c), (''Target'', shift c (- int d))]
     = map (\<lambda>i. c ! (i + d)) (eligible_rows c d)"
proof -
  have "map (\<lambda>i. shift c (- int d) ! i) (eligible_rows c d)
      = map (\<lambda>i. c ! (i + d)) (eligible_rows c d)"
    by (rule map_cong) (auto dest: eligible_rows_bound simp: nth_shift_neg)
  then show ?thesis
    unfolding targets_def dropna2 keep_eligible
    by (simp add: get_columns_def del: not_None_eq)
qed

lemma eligible_rows_defined:
  assumes "list_all (\<lambda>x. x \<noteq> None) c"
  shows "eligible_rows c d = [0..<length c - d]"
proof -
  have "filter (\<lambda>i. c ! i \<noteq> None \<and> c ! (i + d) \<noteq> None) [0..<length c - d]
      = filter (\<lambda>i. True) [0..<length c - d]"
    using assms by (intro filter_cong) (auto simp: list_all_length simp del: not_None_eq)
  then show ?thesis by (simp add: eligible_rows_def)
qed

lemma last_rows_close:
  assumes "1 \<le> d"
  shows "last_rows d (values_of [(''Close'', c)]) = map (\<lambda>x. [x]) (drop (length c - d) c)"
  using assms by (simp add: last_rows_def values_of_single drop_map)

lemma forecast_local:
  assumes "1 \<le> d"
  shows "forecast lib scaler m [(''Close'', c), (''Target'', t)] d =
     (case scaler_transform lib scaler (map (\<lambda>x. [x]) (drop (length c - d) c)) of
        Inl e \<Rightarrow> [Uncaught (External e)]
      | Inr F \<Rightarrow>
          (case predict lib m F of
             Inl e \<Rightarrow> [Uncaught (External e)]
           | Inr future_preds \<Rightarrow>
               if length future_preds \<noteq> d then [Uncaught ValueError]
               else [Forecast (zip [1..<d + 1] future_preds)]))"
  using assms
  by (simp add: forecast_def get_columns_def columns_def last_rows_close[OF assms]
      split: sum.splits)

lemma guard_iff:
  "\<not> all_null (shift c (- int d)) \<longleftrightarrow> (\<exists>i. i + d < length c \<and> c ! (i + d) \<noteq> None)"
  by (simp add: all_null_shift_iff del: not_None_eq)

lemma assign_all_length: "length (fst (assign_all cs cp h r)) = length h"
  by (induction cs arbitrary: h) (auto split: sum.splits squeezed.splits)

lemma assign_all_other: "r' \<noteq> r \<Longrightarrow> fst (assign_all cs cp h r) ! r' = h ! r'"
  by (induction cs arbitrary: h) (auto split: sum.splits squeezed.splits)

lemma plot_chart_other: "r' < length h \<Longrightarrow> fst (plot_chart h r t y c) ! r' = h ! r'"
  by (simp add: plot_chart_def alloc_def Let_def nth_append split: list.splits)

lemma tech_indicators_other:
  assumes "r' < length h" and "r' \<noteq> r"
  shows "fst (tech_indicators talib option h r) ! r' = h ! r'"
proof (cases "''Close'' \<in> set (columns (h ! r))")
  case False
  then show ?thesis by (simp add: tech_indicators_def)
next
  case True
  obtain h1 e where a: "assign_all (indicator_columns talib)
      (squeeze (get_columns (h ! r) ''Close'')) h r = (h1, e)"
    by (cases "assign_all (indicator_columns talib) (squeeze (get_columns (h ! r) ''Close'')) h r")
  have l: "length h1 = length h"
    using assign_all_length[of "indicator_columns talib"
        "squeeze (get_columns (h ! r) ''Close'')" h r] a
    by simp
  have n: "h1 ! r' = h ! r'"
    using assign_all_other[OF assms(2), of "indicator_columns talib"
        "squeeze (get_columns (h ! r) ''Close'')" h] a
    by simp
  from assms(1) l have r1: "r' < length h1" by simp
  show ?thesis
    using True a n plot_chart_other[OF r1]
    by (cases e; cases option) (simp_all add: tech_indicators_def Let_def)
qed

lemma train_and_predict_keeps:
  "take (length h) (fst (train_and_predict lib g model h r H)) = h"
  by (simp add: train_and_predict_def alloc_def Let_def split: sum.splits list.splits)

lemma main_cache:
  "cache (fst (main src talib sk g inp s)) =
     (if load_data inp \<and> start_date inp < end_date inp
      then cache (snd (cached_download_data src s (stock_symbol inp, start_date inp, end_date inp)))
      else cache s)"
  by (simp add: main_def Let_def split: prod.splits sum.splits view.splits)
























section \<open>Column normalisation\<close>



section \<open>The request cache\<close>

text \<open>
  Claim C3.  Within one session the Data Loader caches what it returned, keyed by the
  exact (symbol, start date, end date) tuple, whether that was a frame or a reported
  failure: \<open>download_data\<close> catches every exception and returns \<open>None\<close>, and the
  decorator stores that return value like any other.  After a call that returned
  \<open>res\<close> the cache holds \<open>res\<close> under the key; a further call with the identical
  key returns the identical \<open>res\<close> and leaves the session, its log of fetches included,
  as it was, whatever the market data source would answer now (\<open>src'\<close>); entries under
  other keys are not touched; and a fetch is made, once, exactly when the key was not
  cached.
\<close>

theorem cached_results:
  assumes "cached_download_data src s key = (res, s1)"
  shows "cache s1 key = Some res
       \<and> cached_download_data src' s1 key = (res, s1)
       \<and> (\<forall>key'. key' \<noteq> key \<longrightarrow> cache s1 key' = cache s key')
       \<and> (cache s key = None \<longrightarrow> res = download_data src key \<and> fetches s1 = fetches s @ [key])
       \<and> (cache s key \<noteq> None \<longrightarrow> s1 = s)"
  using assms
  by (auto simp: cached_download_data_def Let_def split: option.splits)

text \<open>
  A first request is answered by a source with two trading days; the repeated request
  returns the same frame from a source that has nothing.
\<close>

theorem cached_results_witness:
  "cached_download_data two_days new_session (''AAPL'', 1, 3)
     = (Inr [(''Date'', [Some 1, Some 2]), (''Close'', [Some 10, Some 11])],
        snd (cached_download_data two_days new_session (''AAPL'', 1, 3)))
   \<and> cached_download_data no_data (snd (cached_download_data two_days new_session (''AAPL'', 1, 3)))
        (''AAPL'', 1, 3)
     = (Inr [(''Date'', [Some 1, Some 2]), (''Close'', [Some 10, Some 11])],
        snd (cached_download_data two_days new_session (''AAPL'', 1, 3)))"
proof -
  have a: "cached_download_data two_days new_session (''AAPL'', 1, 3)
     = (Inr [(''Date'', [Some 1, Some 2]), (''Close'', [Some 10, Some 11])],
        snd (cached_download_data two_days new_session (''AAPL'', 1, 3)))"
    by (simp add: cached_download_data_def new_session_def two_days_def download_data_def
        reset_index_def index_label_def empty_def n_columns_def normalize_labels_def
        flatten_def strip_def isspace_def rename_def Let_def)
  from cached_results [OF a, of no_data] a show ?thesis by simp
qed

text \<open>
  The cache does not hold successful results only.  A request the source answers with
  an empty frame leaves the failure \<open>EmptyResult\<close> in the cache, and the same request
  gets that failure again although the source now has data.
\<close>

theorem failure_is_cached:
  "cache (snd (cached_download_data no_data new_session (''AAPL'', 1, 3))) (''AAPL'', 1, 3)
     = Some (Inl EmptyResult)
   \<and> fst (cached_download_data two_days
            (snd (cached_download_data no_data new_session (''AAPL'', 1, 3))) (''AAPL'', 1, 3))
     = Inl EmptyResult"
  by (simp add: cached_download_data_def new_session_def no_data_def download_data_def
        reset_index_def index_label_def empty_def n_columns_def Let_def)

section \<open>Date validation\<close>

text \<open>
  Claim C7.  When the start date is not strictly before the end date (equal dates
  included), a run leaves the session as it was: no fetch is logged, the Data Loader is
  not called, nothing enters the cache; and, the Load Data button being pressed, what
  is shown is the single report \<open>ValidationError\<close>.  The only call of the Data Loader
  in \<open>main\<close> is in the branch \<open>start_date < end_date\<close> (lines 163--164).
\<close>

theorem invalid_date_range:
  assumes "\<not> start_date inp < end_date inp"
  shows "fst (main src talib sk g inp s) = s
       \<and> (load_data inp \<longrightarrow> snd (main src talib sk g inp s) = [Error ValidationError])"
  using assms by (simp add: main_def)

text \<open>
  Start date and end date both day 3, Load Data pressed.
\<close>

theorem invalid_date_range_witness:
  "\<not> start_date \<lparr>view_option = Visualize, stock_symbol = ''AAPL'', start_date = 3, end_date = 3,
        load_data = True, indicator = Opt_SMA, chosen_model = KNN, days_forecast = 1,
        predict_button = False\<rparr>
      < end_date \<lparr>view_option = Visualize, stock_symbol = ''AAPL'', start_date = 3, end_date = 3,
        load_data = True, indicator = Opt_SMA, chosen_model = KNN, days_forecast = 1,
        predict_button = False\<rparr>
   \<and> main two_days sample_ta sample_sklearn 0
        \<lparr>view_option = Visualize, stock_symbol = ''AAPL'', start_date = 3, end_date = 3,
         load_data = True, indicator = Opt_SMA, chosen_model = KNN, days_forecast = 1,
         predict_button = False\<rparr> new_session
     = (new_session, [Error ValidationError])"
  using invalid_date_range [of "\<lparr>view_option = Visualize, stock_symbol = ''AAPL'', start_date = 3,
        end_date = 3, load_data = True, indicator = Opt_SMA, chosen_model = KNN,
        days_forecast = 1, predict_button = False\<rparr>" two_days sample_ta sample_sklearn 0 new_session]
  by (simp add: prod_eq_iff)

section \<open>Renderers and the loaded frame\<close>

text \<open>
  Claim C4.  What the renderers do to the store of frame objects and to the cache.  The
  Recent Data Renderer changes no object.  The Prediction Renderer changes no object
  that existed before it ran: it works on a new frame of its own (line 125).  The
  Indicator Renderer changes no object but the one it is given (\<open>r\<close>); into that one
  it does write, see below.  The cache after a run of \<open>main\<close> is the cache the Data
  Loader left: no Visualize, Recent Data or Predict action changes a cached result,
  because the cache holds a value and every call hands out a new object.
\<close>

theorem renderers_and_loaded_frame:
  "fst (dataframe h r :: 'v frame list \<times> ('v, 'e) ui list) = h
   \<and> take (length h) (fst (train_and_predict lib g model h r H)) = h
   \<and> (\<forall>r'. r' < length h \<and> r' \<noteq> r \<longrightarrow> fst (tech_indicators talib option h r) ! r' = h ! r')
   \<and> cache (fst (main src talib lib g inp s)) =
       (if load_data inp \<and> start_date inp < end_date inp
        then cache (snd (cached_download_data src s (stock_symbol inp, start_date inp, end_date inp)))
        else cache s)"
  by (simp add: dataframe_def train_and_predict_keeps tech_indicators_other main_cache)

text \<open>
  A store of two frames; the Indicator Renderer runs on the first, the second is as it
  was.
\<close>

theorem renderers_and_loaded_frame_witness:
  "(1::nat) < length [[(''Date'', [Some 1, Some 2]), (''Close'', [Some 10, Some (11::int)])],
                      [(''Close'', [Some 5])]]
   \<and> (1::nat) \<noteq> 0
   \<and> fst (tech_indicators sample_ta Opt_SMA
        [[(''Date'', [Some 1, Some 2]), (''Close'', [Some 10, Some 11])], [(''Close'', [Some 5])]] 0) ! 1
     = [(''Close'', [Some 5])]"
proof -
  have "fst (tech_indicators sample_ta Opt_SMA
        [[(''Date'', [Some 1, Some 2]), (''Close'', [Some 10, Some 11])], [(''Close'', [Some 5])]] 0) ! 1
     = [[(''Date'', [Some 1, Some 2]), (''Close'', [Some 10, Some 11])], [(''Close'', [Some 5])]] ! 1"
    using renderers_and_loaded_frame [of
      "[[(''Date'', [Some 1, Some 2]), (''Close'', [Some 10, Some (11::int)])], [(''Close'', [Some 5])]]"
      0 sample_sklearn 0 LinearRegression 1 sample_ta Opt_SMA two_days
      "\<lparr>view_option = Visualize, stock_symbol = ''AAPL'', start_date = 3,
        end_date = 3, load_data = True, indicator = Opt_SMA, chosen_model = KNN,
        days_forecast = 1, predict_button = False\<rparr>" new_session,
      THEN conjunct2, THEN conjunct2, THEN conjunct1, rule_format, of 1]
    by simp
  then show ?thesis by simp
qed

text \<open>
  The Indicator Renderer writes into the loaded frame itself.  Lines 75--80 assign the
  columns to \<open>df\<close>, the object \<open>main\<close> received from the Data Loader, and only
  \<open>plot_chart\<close> copies (line 50): after a Visualize render the loaded frame is not the
  frame that was loaded.
\<close>

theorem indicators_written_in_place:
  "fst (tech_indicators sample_ta Opt_Close
        [[(''Date'', [Some 1, Some 2]), (''Close'', [Some 10, Some 11])]] 0) ! 0
     \<noteq> [(''Date'', [Some 1, Some 2]), (''Close'', [Some 10, Some 11])]"
  by code_simp

section \<open>Indicator columns\<close>







section \<open>Fit-eligible rows, scaler and forecast\<close>

text \<open>
  Claim C1.  For a frame with exactly one \<open>Close\<close> column, of \<open>N\<close> rows that are
  all defined, and a forecast horizon \<open>H\<close>, the number of fit-eligible rows of the
  Prediction Renderer (the rows of its frame kept after \<open>Target\<close> is \<open>Close\<close>
  shifted by \<open>H\<close> and the rows with an undefined value are dropped) is
  \<open>max 0 (N - H)\<close>; that number is 0 exactly when every target value is undefined;
  and then the only thing shown is the report \<open>InsufficientData\<close>, whatever the
  modelling library \<open>lib\<close> would do: no scaler and no model is fitted.
\<close>

theorem fit_eligible_rows:
  assumes "get_columns (h ! r) ''Close'' = [close]"
    and "list_all (\<lambda>x. x \<noteq> None) close"
  shows "int (length (features (fst (train_and_predict lib g model h r H) ! length h)))
           = max 0 (int (length close) - int H)
       \<and> (length (features (fst (train_and_predict lib g model h r H) ! length h)) = 0
            \<longleftrightarrow> all_null (concat (get_columns
                  (fst (train_and_predict lib g model h r H) ! length h) ''Target'')))
       \<and> (length (features (fst (train_and_predict lib g model h r H) ! length h)) = 0
            \<longrightarrow> snd (train_and_predict lib g model h r H) = [Error InsufficientData])"
proof -
  let ?df = "[(''Close'', close), (''Target'', shift close (- int H))]"
  have df: "fst (train_and_predict lib g model h r H) ! length h = ?df"
    by (simp add: local_frame[OF assms(1)] Let_def)
  have n: "length (features ?df) = length close - H"
    by (simp add: features_local eligible_rows_defined[OF assms(2)])
  have t: "concat (get_columns ?df ''Target'') = shift close (- int H)"
    by (simp add: get_columns_def)
  have "all_null (shift close (- int H)) \<longleftrightarrow> (\<forall>i. i + H < length close \<longrightarrow> close ! (i + H) = None)"
    by (rule all_null_shift_iff)
  also have "\<dots> \<longleftrightarrow> length close \<le> H"
  proof
    assume a: "\<forall>i. i + H < length close \<longrightarrow> close ! (i + H) = None"
    show "length close \<le> H"
    proof (rule ccontr)
      assume "\<not> length close \<le> H"
      then have b: "0 + H < length close" by simp
      with a have "close ! (0 + H) = None" by blast
      moreover from assms(2) b have "close ! (0 + H) \<noteq> None"
        by (simp add: list_all_length del: not_None_eq)
      ultimately show False by simp
    qed
  next
    assume "length close \<le> H"
    then show "\<forall>i. i + H < length close \<longrightarrow> close ! (i + H) = None" by simp
  qed
  finally have a: "all_null (shift close (- int H)) \<longleftrightarrow> length close \<le> H" .
  have out: "length close \<le> H \<Longrightarrow> snd (train_and_predict lib g model h r H) = [Error InsufficientData]"
    using a by (simp add: local_frame[OF assms(1)] Let_def)
  show ?thesis
    unfolding df n t a using out by auto
qed

text \<open>
  Three rows and horizon 3: no eligible row, \<open>InsufficientData\<close>.
\<close>

theorem fit_eligible_rows_witness:
  "get_columns ([[(''Close'', [Some 1, Some 2, Some (3::int)])]] ! 0) ''Close'' = [[Some 1, Some 2, Some 3]]
   \<and> list_all (\<lambda>x. x \<noteq> None) [Some 1, Some 2, Some (3::int)]
   \<and> int (length (features (fst (train_and_predict sample_sklearn 0 LinearRegression
        [[(''Close'', [Some 1, Some 2, Some 3])]] 0 3) ! 1))) = 0
   \<and> snd (train_and_predict sample_sklearn 0 LinearRegression
        [[(''Close'', [Some 1, Some 2, Some 3])]] 0 3) = [Error InsufficientData]"
  using fit_eligible_rows [of "[[(''Close'', [Some 1, Some 2, Some (3::int)])]]" 0
      "[Some 1, Some 2, Some 3]" sample_sklearn 0 LinearRegression 3]
  by (simp add: get_columns_def)

text \<open>
  Both hypotheses are needed.  \<open>dropna\<close> (lines 132--133) also drops the rows whose
  \<open>Close\<close> is undefined, and the guard (line 128) looks at \<open>Target\<close> only: with
  an undefined first \<open>Close\<close>, three rows and horizon 1 leave one eligible row, not
  two; two rows and horizon 1 leave none, yet the guard lets the run on and the scaler is
  called with no row.  With two \<open>Close\<close> columns, which the Data Loader returns for
  a symbol text naming two tickers, line 126 raises \<open>ValueError\<close> before the guard is
  reached: one row and horizon 1 give \<open>max 0 (1 - 1) = 0\<close>, and \<open>ValueError\<close> is
  shown, not \<open>InsufficientData\<close>.
\<close>

theorem fit_eligible_rows_fails:
  "int (length (features (fst (train_and_predict sample_sklearn 0 LinearRegression
        [[(''Close'', [None, Some 1, Some 2])]] 0 1) ! 1)))
     \<noteq> max 0 (int (length [None, Some 1, Some (2::int)]) - int 1)
   \<and> length (features (fst (train_and_predict sample_sklearn 0 LinearRegression
        [[(''Close'', [None, Some 1])]] 0 1) ! 1)) = 0
   \<and> snd (train_and_predict sample_sklearn 0 LinearRegression
        [[(''Close'', [None, Some 1])]] 0 1) \<noteq> [Error InsufficientData]
   \<and> max 0 (int (length [Some (1::int)]) - int 1) = 0
   \<and> snd (train_and_predict sample_sklearn 0 LinearRegression
        [[(''Close'', [Some 1]), (''Close'', [Some 1])]] 0 1) = [Uncaught ValueError]"
  by code_simp

text \<open>
  Claim C8.  In a run of the Prediction Renderer that passes the \<open>InsufficientData\<close>
  check (a frame with one \<open>Close\<close> column, some target defined), the scaler of the
  single \<open>Close\<close> feature is fitted on the fit-eligible rows only.  With \<open>X\<close> the
  matrix of the \<open>Close\<close> values of those rows: when fitting the scaler on \<open>X\<close>
  raises, the run ends with that exception; when the fitted scaler raises on
  transforming \<open>X\<close>, likewise; and the whole run is unchanged when the library's
  fitting function is replaced by any \<open>f\<close> that agrees with it on \<open>X\<close>: what a
  scaler would compute from any other rows, the dropped ones included, has no influence.
  When every \<open>Close\<close> is defined, \<open>X\<close> is the first \<open>N - H\<close> values: the last
  \<open>H\<close> rows, dropped for their undefined target, contribute nothing.
\<close>

theorem scaler_statistics:
  assumes "get_columns (h ! r) ''Close'' = [close]"
    and "\<exists>i. i + H < length close \<and> close ! (i + H) \<noteq> None"
  shows "(\<forall>e. scaler_fit lib (map (\<lambda>i. [close ! i]) (eligible_rows close H)) = Inl e
            \<longrightarrow> snd (train_and_predict lib g model h r H) = [Uncaught (External e)])
       \<and> (\<forall>scaler e.
            scaler_fit lib (map (\<lambda>i. [close ! i]) (eligible_rows close H)) = Inr scaler
            \<and> scaler_transform lib scaler (map (\<lambda>i. [close ! i]) (eligible_rows close H)) = Inl e
            \<longrightarrow> snd (train_and_predict lib g model h r H) = [Uncaught (External e)])
       \<and> (\<forall>f. f (map (\<lambda>i. [close ! i]) (eligible_rows close H))
                 = scaler_fit lib (map (\<lambda>i. [close ! i]) (eligible_rows close H))
            \<longrightarrow> train_and_predict (lib\<lparr>scaler_fit := f\<rparr>) g model h r H
                  = train_and_predict lib g model h r H)
       \<and> (list_all (\<lambda>x. x \<noteq> None) close
            \<longrightarrow> map (\<lambda>i. [close ! i]) (eligible_rows close H)
                  = map (\<lambda>x. [x]) (take (length close - H) close))"
proof -
  let ?df = "[(''Close'', close), (''Target'', shift close (- int H))]"
  let ?X = "map (\<lambda>i. [close ! i]) (eligible_rows close H)"
  from assms(2) have guard: "\<not> all_null (shift close (- int H))"
    by (simp only: guard_iff)
  have run: "\<And>l. snd (train_and_predict l g model h r H) = fit_predict l g model ?df H"
    using guard by (simp add: local_frame[OF assms(1)] Let_def)
  have a: "\<And>e. scaler_fit lib ?X = Inl e
      \<Longrightarrow> snd (train_and_predict lib g model h r H) = [Uncaught (External e)]"
    by (simp add: run fit_predict_def split_rows_def standardize_def features_local)
  have b: "\<And>scaler e. scaler_fit lib ?X = Inr scaler \<and> scaler_transform lib scaler ?X = Inl e
      \<Longrightarrow> snd (train_and_predict lib g model h r H) = [Uncaught (External e)]"
    by (simp add: run fit_predict_def split_rows_def standardize_def features_local)
  have c: "\<And>f. f ?X = scaler_fit lib ?X
      \<Longrightarrow> train_and_predict (lib\<lparr>scaler_fit := f\<rparr>) g model h r H
            = train_and_predict lib g model h r H"
    by (simp add: local_frame[OF assms(1)] Let_def fit_predict_def split_rows_def
        standardize_def features_local forecast_def cong: sum.case_cong prod.case_cong)
  have d: "list_all (\<lambda>x. x \<noteq> None) close
      \<Longrightarrow> ?X = map (\<lambda>x. [x]) (take (length close - H) close)"
  proof -
    assume n: "list_all (\<lambda>x. x \<noteq> None) close"
    have "map (\<lambda>i. [close ! i]) [0..<length close - H]
        = map (\<lambda>x. [x]) (map (\<lambda>i. close ! i) [0..<length close - H])"
      by simp
    also have "map (\<lambda>i. close ! i) [0..<length close - H] = take (length close - H) close"
      by (rule map_nth_upt) simp
    finally show ?thesis by (simp only: eligible_rows_defined[OF n])
  qed
  from a b c d show ?thesis by blast
qed

text \<open>
  Three rows and horizon 1.  The eligible rows hold 1 and 2; a scaler that can be fitted
  on these two values and on nothing else gives the same run.
\<close>

theorem scaler_statistics_witness:
  "get_columns ([[(''Close'', [Some 1, Some 2, Some (3::int)])]] ! 0) ''Close'' = [[Some 1, Some 2, Some 3]]
   \<and> 0 + 1 < length [Some 1, Some 2, Some (3::int)]
   \<and> [Some 1, Some 2, Some (3::int)] ! (0 + 1) \<noteq> None
   \<and> map (\<lambda>i. [[Some 1, Some 2, Some (3::int)] ! i]) (eligible_rows [Some 1, Some 2, Some (3::int)] 1)
       = [[Some 1], [Some 2]]
   \<and> train_and_predict
        (sample_sklearn\<lparr>scaler_fit := \<lambda>X. if X = [[Some 1], [Some 2]] then Inr X else Inl ()\<rparr>)
        0 LinearRegression [[(''Close'', [Some 1, Some 2, Some 3])]] 0 1
     = train_and_predict sample_sklearn 0 LinearRegression
        [[(''Close'', [Some 1, Some 2, Some 3])]] 0 1"
proof -
  have a: "get_columns ([[(''Close'', [Some 1, Some 2, Some (3::int)])]] ! 0) ''Close''
      = [[Some 1, Some 2, Some 3]]"
    by (simp add: get_columns_def)
  have b: "\<exists>i. i + 1 < length [Some 1, Some 2, Some (3::int)]
      \<and> [Some 1, Some 2, Some (3::int)] ! (i + 1) \<noteq> None"
    by (rule exI[of _ 0]) simp
  have c: "map (\<lambda>i. [[Some 1, Some 2, Some (3::int)] ! i])
      (eligible_rows [Some 1, Some 2, Some (3::int)] 1) = [[Some 1], [Some 2]]"
    by code_simp
  have d: "(\<lambda>X. if X = [[Some 1], [Some 2]] then Inr X else Inl ())
        (map (\<lambda>i. [[Some 1, Some 2, Some (3::int)] ! i])
           (eligible_rows [Some 1, Some 2, Some (3::int)] 1))
      = scaler_fit sample_sklearn (map (\<lambda>i. [[Some 1, Some 2, Some (3::int)] ! i])
           (eligible_rows [Some 1, Some 2, Some (3::int)] 1))"
    unfolding c by (simp add: sample_sklearn_def)
  from scaler_statistics [OF a b, of sample_sklearn 0 LinearRegression,
      THEN conjunct2, THEN conjunct2, THEN conjunct1,
      THEN spec, of "\<lambda>X. if X = [[Some 1], [Some 2]] then Inr X else Inl ()"] d
  have "train_and_predict
        (sample_sklearn\<lparr>scaler_fit := \<lambda>X. if X = [[Some 1], [Some 2]] then Inr X else Inl ()\<rparr>)
        0 LinearRegression [[(''Close'', [Some 1, Some 2, Some 3])]] 0 1
     = train_and_predict sample_sklearn 0 LinearRegression
        [[(''Close'', [Some 1, Some 2, Some 3])]] 0 1"
    by blast
  with a c show ?thesis by simp
qed

text \<open>
  Claim C2.  A run of the Prediction Renderer with horizon \<open>H\<close> (at least 1, as the
  slider gives it) on a frame with one \<open>Close\<close> column, that passes the
  \<open>InsufficientData\<close> check and in which no library call raises: the scaler is fitted
  on the \<open>Close\<close> values of the fit-eligible rows and transforms them, the result is
  split with the targets of these rows (20 percent, \<open>random_state=42\<close>), the model is
  fitted on the training part and scored on the test part.  Then the run shows the two
  scores and the forecast: what this fitted model predicts from the last \<open>H\<close> raw
  \<open>Close\<close> values (there are exactly \<open>H\<close>), transformed by this same scaler.  The
  model returning \<open>H\<close> values, one per row, the table has exactly \<open>H\<close> rows and its
  day offsets are \<open>1, \<dots>, H\<close> in increasing order; with any other number of values
  \<open>pd.DataFrame\<close> (line 149) raises \<open>ValueError\<close>.
\<close>

theorem forward_forecast:
  assumes "get_columns (h ! r) ''Close'' = [close]"
    and "1 \<le> H"
    and "\<exists>i. i + H < length close \<and> close ! (i + H) \<noteq> None"
    and "scaler_fit lib (map (\<lambda>i. [close ! i]) (eligible_rows close H)) = Inr scaler"
    and "scaler_transform lib scaler (map (\<lambda>i. [close ! i]) (eligible_rows close H)) = Inr Xs"
    and "train_test_split lib g Xs (map (\<lambda>i. close ! (i + H)) (eligible_rows close H)) 20 (Some 42)
           = Inr (X_train, X_test, y_train, y_test)"
    and "fit lib g model X_train y_train = Inr m"
    and "predict lib m X_test = Inr preds"
    and "r2_score lib y_test preds = Inr r2"
    and "mean_absolute_error lib y_test preds = Inr mae"
    and "scaler_transform lib scaler (map (\<lambda>x. [x]) (drop (length close - H) close)) = Inr F"
    and "predict lib m F = Inr future"
  shows "snd (train_and_predict lib g model h r H)
           = [R2Score r2, MeanAbsoluteError mae]
             @ (if length future = H then [Forecast (zip [1..<H + 1] future)]
                else [Uncaught ValueError])
       \<and> length (drop (length close - H) close) = H
       \<and> (length future = H
            \<longrightarrow> length (zip [1..<H + 1] future) = H
              \<and> map fst (zip [1..<H + 1] future) = [1..<H + 1])"
proof -
  let ?df = "[(''Close'', close), (''Target'', shift close (- int H))]"
  from assms(3) have guard: "\<not> all_null (shift close (- int H))"
    by (simp only: guard_iff)
  from assms(3) have len: "H < length close" by auto
  have run: "snd (train_and_predict lib g model h r H) = fit_predict lib g model ?df H"
    using guard by (simp add: local_frame[OF assms(1)] Let_def)
  have sp: "split_rows lib g ?df = Inr (scaler, X_train, X_test, y_train, y_test)"
    using assms(4,5,6) by (simp add: split_rows_def standardize_def features_local targets_local)
  have fc: "forecast lib scaler m ?df H
      = (if length future = H then [Forecast (zip [1..<H + 1] future)] else [Uncaught ValueError])"
    using assms(11,12) by (simp add: forecast_local[OF assms(2)])
  have a: "snd (train_and_predict lib g model h r H)
      = [R2Score r2, MeanAbsoluteError mae]
        @ (if length future = H then [Forecast (zip [1..<H + 1] future)]
           else [Uncaught ValueError])"
    using assms(7,8,9,10) by (simp add: run fit_predict_def sp fc)
  have b: "length (drop (length close - H) close) = H" using len by simp
  have c: "length future = H
      \<Longrightarrow> length (zip [1..<H + 1] future) = H \<and> map fst (zip [1..<H + 1] future) = [1..<H + 1]"
    by simp
  from a b c show ?thesis by blast
qed

text \<open>
  Four rows and horizon 2, every call of the sample library spelt out: the table of the
  days 1 and 2 is shown.
\<close>

theorem forward_forecast_witness:
  "snd (train_and_predict sample_sklearn 0 LinearRegression
        [[(''Close'', [Some 1, Some 2, Some 3, Some 4])]] 0 2)
     = [R2Score 1, MeanAbsoluteError 0, Forecast [(1, Some 1), (2, Some 2)]]"
proof -
  let ?close = "[Some 1, Some 2, Some 3, Some (4::int)]"
  have a: "get_columns ([[(''Close'', ?close)]] ! 0) ''Close'' = [?close]"
    by (simp add: get_columns_def)
  have b: "(1::nat) \<le> 2" by simp
  have c: "\<exists>i. i + 2 < length ?close \<and> ?close ! (i + 2) \<noteq> None"
    by (rule exI[of _ 0]) simp
  have X: "map (\<lambda>i. [?close ! i]) (eligible_rows ?close 2) = [[Some 1], [Some 2]]"
    by code_simp
  have y: "map (\<lambda>i. ?close ! (i + 2)) (eligible_rows ?close 2) = [Some 3, Some 4]"
    by code_simp
  have d: "scaler_fit sample_sklearn (map (\<lambda>i. [?close ! i]) (eligible_rows ?close 2))
      = Inr [[Some 1], [Some 2]]"
    unfolding X by (simp add: sample_sklearn_def)
  have e: "scaler_transform sample_sklearn [[Some 1], [Some 2]]
        (map (\<lambda>i. [?close ! i]) (eligible_rows ?close 2)) = Inr [[Some (- 1)], [Some 0]]"
    unfolding X by (simp add: sample_sklearn_def)
  have f: "train_test_split sample_sklearn 0 [[Some (- 1)], [Some 0]]
        (map (\<lambda>i. ?close ! (i + 2)) (eligible_rows ?close 2)) 20 (Some 42)
      = Inr ([[Some (- 1)]], [[Some 0]], [Some 3], [Some 4])"
    unfolding y by (simp add: sample_sklearn_def)
  have g: "fit sample_sklearn 0 LinearRegression [[Some (- 1)]] [Some 3] = Inr 0"
    by (simp add: sample_sklearn_def)
  have h: "predict sample_sklearn 0 [[Some 0]] = Inr [Some 0]"
    by (simp add: sample_sklearn_def)
  have i: "r2_score sample_sklearn [Some 4] [Some 0] = Inr 1"
    by (simp add: sample_sklearn_def)
  have j: "mean_absolute_error sample_sklearn [Some 4] [Some 0] = Inr 0"
    by (simp add: sample_sklearn_def)
  have k: "scaler_transform sample_sklearn [[Some 1], [Some 2]]
        (map (\<lambda>x. [x]) (drop (length ?close - 2) ?close)) = Inr [[Some 1], [Some 2]]"
    by (simp add: sample_sklearn_def)
  have l: "predict sample_sklearn 0 [[Some 1], [Some 2]] = Inr [Some 1, Some 2]"
    by (simp add: sample_sklearn_def)
  from forward_forecast [OF a b c d e f g h i j k l]
  show ?thesis by (simp add: upt_rec)
qed

text \<open>
  Passing the check does not ensure a table.  Two rows and horizon 1 pass it, with one
  eligible row; splitting a single row raises, as \<open>train_test_split\<close> does when the
  training set would be empty, and the run ends with that exception, without a table.
\<close>

theorem no_forecast_table:
  "\<not> all_null (concat (get_columns (fst (train_and_predict sample_sklearn 0 LinearRegression
        [[(''Close'', [Some 1, Some 2])]] 0 1) ! 1) ''Target''))
   \<and> snd (train_and_predict sample_sklearn 0 LinearRegression
        [[(''Close'', [Some 1, Some 2])]] 0 1) = [Uncaught (External ())]"
  by code_simp

text \<open>
  Claim C5.  Two runs of the Prediction Renderer, one with the process-wide random
  generator in state \<open>g\<close> and one in state \<open>g'\<close>.  The library is taken by its
  contract: a split that is given a seed does not read the generator, and fitting reads
  it only for a forest built without a seed.  Then the two runs make the same train/test
  split of every frame, because line 138 passes \<open>random_state=42\<close>; and for the model
  choices Linear Regression, KNN and XGBoost they show the same scores and the same
  forecast.
\<close>

theorem reproducible_runs:
  assumes "\<forall>X y p s. train_test_split lib g X y p (Some s) = train_test_split lib g' X y p (Some s)"
    and "\<forall>model X y. model \<noteq> RandomForestRegressor None \<and> model \<noteq> ExtraTreesRegressor None
           \<longrightarrow> fit lib g model X y = fit lib g' model X y"
  shows "split_rows lib g df = split_rows lib g' df
       \<and> (chosen_model inp \<in> {Linear_Regression, KNN, XGBoost}
            \<longrightarrow> predict_view lib g inp h r = predict_view lib g' inp h r)"
proof -
  have s: "\<And>df. split_rows lib g df = split_rows lib g' df"
    using assms(1) by (simp add: split_rows_def cong: sum.case_cong prod.case_cong)
  have f: "\<And>X y. chosen_model inp \<in> {Linear_Regression, KNN, XGBoost}
      \<Longrightarrow> fit lib g (model_dict (chosen_model inp)) X y = fit lib g' (model_dict (chosen_model inp)) X y"
    using assms(2) by (cases "chosen_model inp") auto
  have fp: "\<And>df d. chosen_model inp \<in> {Linear_Regression, KNN, XGBoost}
      \<Longrightarrow> fit_predict lib g (model_dict (chosen_model inp)) df d
        = fit_predict lib g' (model_dict (chosen_model inp)) df d"
    by (simp only: fit_predict_def s f)
  have "chosen_model inp \<in> {Linear_Regression, KNN, XGBoost}
      \<Longrightarrow> predict_view lib g inp h r = predict_view lib g' inp h r"
    by (simp only: predict_view_def train_and_predict_def fp)
  with s show ?thesis by blast
qed

text \<open>
  The sample library keeps the contract; with KNN both runs show the same.
\<close>

theorem reproducible_runs_witness:
  "(\<forall>X y p s. train_test_split sample_sklearn 0 X y p (Some s)
        = train_test_split sample_sklearn 1 X y p (Some s))
   \<and> (\<forall>X y. fit sample_sklearn 0 (model_dict KNN) X y = fit sample_sklearn 1 (model_dict KNN) X y)
   \<and> chosen_model \<lparr>view_option = Predict, stock_symbol = ''AAPL'', start_date = 1,
        end_date = 3, load_data = True, indicator = Opt_Close, chosen_model = KNN,
        days_forecast = 1, predict_button = True\<rparr> \<in> {Linear_Regression, KNN, XGBoost}
   \<and> predict_view sample_sklearn 0
        \<lparr>view_option = Predict, stock_symbol = ''AAPL'', start_date = 1,
         end_date = 3, load_data = True, indicator = Opt_Close, chosen_model = KNN,
         days_forecast = 1, predict_button = True\<rparr>
        [[(''Close'', [Some 1, Some 2, Some 3, Some 4])]] 0
     = predict_view sample_sklearn 1
        \<lparr>view_option = Predict, stock_symbol = ''AAPL'', start_date = 1,
         end_date = 3, load_data = True, indicator = Opt_Close, chosen_model = KNN,
         days_forecast = 1, predict_button = True\<rparr>
        [[(''Close'', [Some 1, Some 2, Some 3, Some 4])]] 0"
proof -
  have a: "\<forall>X y p s. train_test_split sample_sklearn 0 X y p (Some s)
        = train_test_split sample_sklearn 1 X y p (Some s)"
    by (simp add: sample_sklearn_def)
  have b: "\<forall>model X y. model \<noteq> RandomForestRegressor None \<and> model \<noteq> ExtraTreesRegressor None
        \<longrightarrow> fit sample_sklearn 0 model X y = fit sample_sklearn 1 model X y"
    by (auto simp: sample_sklearn_def split: estimator.splits option.splits)
  from reproducible_runs [OF a b, of _ "\<lparr>view_option = Predict, stock_symbol = ''AAPL'',
        start_date = 1, end_date = 3, load_data = True, indicator = Opt_Close,
        chosen_model = KNN, days_forecast = 1, predict_button = True\<rparr>"
        "[[(''Close'', [Some 1, Some 2, Some 3, Some 4])]]" 0] a
  show ?thesis by (simp add: sample_sklearn_def)
qed

text \<open>
  Random Forest and Extra Trees are built without \<open>random_state\<close> (lines 116--117),
  so fitting them draws from the process-wide generator: on the same frame, with the same
  model choice and horizon, two runs show different forecasts.
\<close>

theorem unseeded_forest_differs:
  "predict_view sample_sklearn 0
        \<lparr>view_option = Predict, stock_symbol = ''AAPL'', start_date = 1,
         end_date = 3, load_data = True, indicator = Opt_Close, chosen_model = Random_Forest,
         days_forecast = 1, predict_button = True\<rparr>
        [[(''Close'', [Some 1, Some 2, Some 3, Some 4])]] 0
     \<noteq> predict_view sample_sklearn 1
        \<lparr>view_option = Predict, stock_symbol = ''AAPL'', start_date = 1,
         end_date = 3, load_data = True, indicator = Opt_Close, chosen_model = Random_Forest,
         days_forecast = 1, predict_button = True\<rparr>
        [[(''Close'', [Some 1, Some 2, Some 3, Some 4])]] 0
   \<and> predict_view sample_sklearn 0
        \<lparr>view_option = Predict, stock_symbol = ''AAPL'', start_date = 1,
         end_date = 3, load_data = True, indicator = Opt_Close, chosen_model = Extra_Trees,
         days_forecast = 1, predict_button = True\<rparr>
        [[(''Close'', [Some 1, Some 2, Some 3, Some 4])]] 0
     \<noteq> predict_view sample_sklearn 1
        \<lparr>view_option = Predict, stock_symbol = ''AAPL'', start_date = 1,
         end_date = 3, load_data = True, indicator = Opt_Close, chosen_model = Extra_Trees,
         days_forecast = 1, predict_button = True\<rparr>
        [[(''Close'', [Some 1, Some 2, Some 3, Some 4])]] 0"
  by code_simp

end
